theory Spec2Isabelle
  imports Complex_Main "HOL-Library.Multiset"
begin

section \<open>Data model of server.js\<close>

text \<open>
  The three Mongoose schemas of the server (\<^verbatim>\<open>foodItemSchema\<close>, \<^verbatim>\<open>orderSchema\<close>,
  \<^verbatim>\<open>userSchema\<close>) become records; a path that is not \<^verbatim>\<open>required\<close> is an option.
  A JavaScript \<^verbatim>\<open>Number\<close> is carried as a rational: the server never computes with one.
  Time is the millisecond clock read as a natural number.
\<close>

record food_item =
  fid :: string
  fname :: string
  image_path :: string
  price :: rat
  description :: string
  ftype :: string

record user_details =
  ud_name :: "string option"
  ud_email :: "string option"

record order_line =
  foodName :: "string option"
  foodPrice :: "rat option"
  quantity :: "rat option"

text \<open>An \<^verbatim>\<open>ObjectId\<close>, the \<^verbatim>\<open>_id\<close> of an order and of a user: twelve bytes, written as
  their 24 hexadecimal digits in lower case.\<close>

datatype object_id = ObjectId string

record order =
  oid :: object_id
  userDetails :: user_details
  orderDetails :: "order_line list"
  totalAmount :: "rat option"
  paymentMethod :: "string option"
  status :: string
  createdAt :: nat
  updatedAt :: nat

record user_doc =
  uid :: object_id
  name :: string
  mobile :: "string option"
  email :: "string option"
  password :: string
  profileImage :: "string option"

text \<open>The three collections; a collection keeps its documents in insertion order.\<close>

record db =
  foodItems :: "food_item list"
  orders :: "order list"
  users :: "user_doc list"

text \<open>The payload of a session token, as the server writes it (\<^verbatim>\<open>{ email: user.email }\<close>)
  and reads it (\<^verbatim>\<open>req.user.email\<close>).\<close>

record claims =
  claim_email :: "string option"

text \<open>The part of an inbound request the guard reads (the \<^verbatim>\<open>Authorization\<close> header)
  and writes (\<^verbatim>\<open>req.user\<close>).\<close>

record request =
  authorization :: "string option"
  user :: "claims option"

text \<open>
  A property of a JSON body: not there (\<^verbatim>\<open>undefined\<close>), a value of the type the schema
  path expects, or a value of another JSON type, carried as its JSON text.
\<close>

datatype 'a field = Absent | Given 'a | Malformed string

record order_body =
  b_userDetails :: "user_details field"
  b_orderDetails :: "order_line list field"
  b_totalAmount :: "rat field"
  b_paymentMethod :: "string field"

text \<open>Multipart form fields are strings or absent.\<close>

record food_body =
  fb_name :: "string option"
  fb_price :: "string option"
  fb_description :: "string option"
  fb_type :: "string option"

record signup_body =
  s_name :: "string option"
  s_mobile :: "string option"
  s_email :: "string option"
  s_password :: "string option"

text \<open>The JSON body of a sign-in: \<^verbatim>\<open>identifier\<close>, a string or absent, and
  \<^verbatim>\<open>password\<close>.\<close>

record signin_body =
  si_identifier :: "string option"
  si_password :: "string field"

datatype body =
    Send string
  | Message string
  | MessageError string
  | FoodItemsJson "food_item list"
  | FoodItemJson food_item
  | FoodItemDeleted food_item
  | OrdersJson "order list"
  | OrderJson order
  | OrderDeleted order
  | AuthJson string string "string option"
  | UserJson object_id string "string option" "string option" "string option"

datatype response = Response nat body

text \<open>
  The third-party functions the handlers call are parameters: bcryptjs on strings
  (\<^verbatim>\<open>hash\<close>, \<^verbatim>\<open>compare\<close>; \<open>None\<close> is a rejected promise), jsonwebtoken (\<^verbatim>\<open>sign\<close>;
  \<^verbatim>\<open>verify\<close>, where \<open>None\<close> is the callback's \<^verbatim>\<open>err\<close>), the cast of a form string to a
  schema \<^verbatim>\<open>Number\<close>, and what Mongoose makes of a value that has not the type of its
  schema path: \<open>None\<close> is a cast error, which the save reports; otherwise the value the
  document keeps (the empty snapshot for a value it drops). Whether a string of twelve
  characters is an \<^verbatim>\<open>ObjectId\<close> depends on the version of the driver, so that cast is
  a parameter too.
\<close>

record lib =
  bcrypt_hash :: "string \<Rightarrow> nat \<Rightarrow> string option"
  bcrypt_compare :: "string \<Rightarrow> string \<Rightarrow> bool option"
  jwt_sign :: "claims \<Rightarrow> string \<Rightarrow> string"
  jwt_verify :: "string \<Rightarrow> string \<Rightarrow> claims option"
  castNumber :: "string \<Rightarrow> rat option"
  cast_userDetails :: "string \<Rightarrow> user_details option"
  cast_orderDetails :: "string \<Rightarrow> order_line list option"
  cast_totalAmount :: "string \<Rightarrow> rat option option"
  cast_paymentMethod :: "string \<Rightarrow> string option option"
  cast12 :: "string \<Rightarrow> object_id option"

text \<open>
  What one request takes from the world: the clock, the \<^verbatim>\<open>ObjectId\<close> generated for a new
  order or user, the \<^verbatim>\<open>uuidv4()\<close> generated for a new food item, and whether the store
  answers its reads and its writes (a promise of the store that rejects lands in the
  handler's \<^verbatim>\<open>catch\<close>).
\<close>

record env =
  now :: nat
  new_id :: object_id
  new_uuid :: string
  find_ok :: bool
  write_ok :: bool

definition JWT_SECRET :: string where
  "JWT_SECRET = ''dc5e41e784f5ba8ce43921796f63300d056dc05dde9630afeef50249a2294863ac92a11433ac5c9e44215e694282ba2b1c11001b78000463c6bac5910415a841''"

section \<open>JavaScript helpers\<close>

text \<open>\<^verbatim>\<open>s.split(' ')\<close>: the pieces of \<open>s\<close> between single spaces, empty pieces kept.\<close>

fun js_split :: "string \<Rightarrow> string list" where
  "js_split [] = [[]]"
| "js_split (c # cs) =
     (if c = CHR '' '' then [] # js_split cs
      else (case js_split cs of [] \<Rightarrow> [[c]] | w # ws \<Rightarrow> (c # w) # ws))"

text \<open>\<^verbatim>\<open>xs[i]\<close>: \<^verbatim>\<open>undefined\<close> out of range.\<close>

definition index :: "'a list \<Rightarrow> nat \<Rightarrow> 'a option" where
  "index xs i = (if i < length xs then Some (xs ! i) else None)"

text \<open>\<^verbatim>\<open>!s\<close> for a string or \<^verbatim>\<open>undefined\<close>.\<close>

definition falsy :: "string option \<Rightarrow> bool" where
  "falsy s = (case s of None \<Rightarrow> True | Some t \<Rightarrow> t = [])"

section \<open>Library calls\<close>

text \<open>\<^verbatim>\<open>bcrypt.hash(s, 10)\<close> and \<^verbatim>\<open>bcrypt.compare(s, hash)\<close>: bcryptjs rejects an
  argument \<open>s\<close> that is not a string before it does anything else.\<close>

definition bcryptjs_hash :: "lib \<Rightarrow> string option \<Rightarrow> nat \<Rightarrow> string option" where
  "bcryptjs_hash L s rounds = (case s of None \<Rightarrow> None | Some pw \<Rightarrow> bcrypt_hash L pw rounds)"

definition bcryptjs_compare :: "lib \<Rightarrow> string field \<Rightarrow> string \<Rightarrow> bool option" where
  "bcryptjs_compare L s h = (case s of Given pw \<Rightarrow> bcrypt_compare L pw h | _ \<Rightarrow> None)"

text \<open>The cast of a path parameter to the \<^verbatim>\<open>ObjectId\<close> of \<^verbatim>\<open>findByIdAndUpdate\<close> and
  \<^verbatim>\<open>findByIdAndDelete\<close>: 24 hexadecimal digits in either case are the identifier they
  spell; a string of another length than 24 and 12, or of 24 characters that are not all
  hexadecimal digits, is a cast error.\<close>

definition is_hex :: "char \<Rightarrow> bool" where
  "is_hex c = (c \<in> set ''0123456789abcdefABCDEF'')"

definition hex_lower :: "char \<Rightarrow> char" where
  "hex_lower c =
     (if c = CHR ''A'' then CHR ''a'' else if c = CHR ''B'' then CHR ''b''
      else if c = CHR ''C'' then CHR ''c'' else if c = CHR ''D'' then CHR ''d''
      else if c = CHR ''E'' then CHR ''e'' else if c = CHR ''F'' then CHR ''f'' else c)"

definition castObjectId :: "lib \<Rightarrow> string \<Rightarrow> object_id option" where
  "castObjectId L p =
     (if length p = 24 then
        (if list_all is_hex p then Some (ObjectId (map hex_lower p)) else None)
      else if length p = 12 then cast12 L p
      else None)"

text \<open>The cast of a body property to its schema path: \<open>dflt\<close> is what the document holds
  for an absent property.\<close>

definition cast_path :: "'d \<Rightarrow> ('a \<Rightarrow> 'd) \<Rightarrow> (string \<Rightarrow> 'd option) \<Rightarrow> 'a field \<Rightarrow> 'd option" where
  "cast_path dflt conv cast f =
     (case f of Absent \<Rightarrow> Some dflt | Given v \<Rightarrow> Some (conv v) | Malformed raw \<Rightarrow> cast raw)"

section \<open>The store\<close>

definition find_by_id :: "object_id \<Rightarrow> order list \<Rightarrow> order option" where
  "find_by_id i os = find (\<lambda>d. oid d = i) os"

fun update_first :: "('a \<Rightarrow> bool) \<Rightarrow> ('a \<Rightarrow> 'a) \<Rightarrow> 'a list \<Rightarrow> 'a list" where
  "update_first P f [] = []"
| "update_first P f (x # xs) = (if P x then f x # xs else x # update_first P f xs)"

fun remove_first :: "('a \<Rightarrow> bool) \<Rightarrow> 'a list \<Rightarrow> 'a list" where
  "remove_first P [] = []"
| "remove_first P (x # xs) = (if P x then xs else x # remove_first P xs)"

definition status_enum :: "string list" where
  "status_enum = [''Pending'', ''Delivered'', ''Rejected'']"

text \<open>\<^verbatim>\<open>new Order({...})\<close> with \<^verbatim>\<open>status: 'Pending'\<close>: an absent \<^verbatim>\<open>userDetails\<close> is
  the empty nested object, an absent \<^verbatim>\<open>orderDetails\<close> the empty array; a property of
  another type is what Mongoose casts it to; \<open>None\<close> when a cast fails, which the save
  reports.\<close>

definition new_Order :: "lib \<Rightarrow> env \<Rightarrow> order_body \<Rightarrow> order option" where
  "new_Order L e b =
     (case (cast_path \<lparr>ud_name = None, ud_email = None\<rparr> (\<lambda>u. u) (cast_userDetails L)
              (b_userDetails b),
            cast_path [] (\<lambda>ls. ls) (cast_orderDetails L) (b_orderDetails b),
            cast_path None Some (cast_totalAmount L) (b_totalAmount b),
            cast_path None Some (cast_paymentMethod L) (b_paymentMethod b)) of
        (Some ud, Some ls, Some t, Some p) \<Rightarrow>
          Some \<lparr>oid = new_id e, userDetails = ud, orderDetails = ls, totalAmount = t,
                paymentMethod = p, status = ''Pending'', createdAt = now e, updatedAt = now e\<rparr>
      | _ \<Rightarrow> None)"

text \<open>\<^verbatim>\<open>doc.save()\<close>: \<open>None\<close> when the promise rejects (the store is down, the status is
  outside the schema's enum, or the \<^verbatim>\<open>_id\<close> is already taken).\<close>

definition Order_save :: "env \<Rightarrow> order \<Rightarrow> db \<Rightarrow> db option" where
  "Order_save e d s =
     (if write_ok e \<and> status d \<in> set status_enum \<and> oid d \<notin> set (map oid (orders s))
      then Some (s\<lparr>orders := orders s @ [d]\<rparr>) else None)"

text \<open>\<^verbatim>\<open>Order.findByIdAndUpdate(id, { status }, { new: true, runValidators: true })\<close>
  under \<^verbatim>\<open>timestamps: true\<close>, on the path parameter \<open>p\<close>: \<open>None\<close> when the promise
  rejects (\<open>p\<close> cannot be cast to an \<^verbatim>\<open>ObjectId\<close>, the status is outside the enum, or
  the store does not answer), else the updated document (or \<^verbatim>\<open>null\<close>) and the store.\<close>

definition Order_findByIdAndUpdate ::
  "lib \<Rightarrow> env \<Rightarrow> string \<Rightarrow> string \<Rightarrow> db \<Rightarrow> (order option \<times> db) option" where
  "Order_findByIdAndUpdate L e p st s =
     (case castObjectId L p of
        None \<Rightarrow> None
      | Some i \<Rightarrow>
          if write_ok e \<and> st \<in> set status_enum then
            (case find_by_id i (orders s) of
               None \<Rightarrow> Some (None, s)
             | Some d \<Rightarrow>
                 Some (Some (d\<lparr>status := st, updatedAt := now e\<rparr>),
                       s\<lparr>orders := update_first (\<lambda>d. oid d = i)
                                      (\<lambda>d. d\<lparr>status := st, updatedAt := now e\<rparr>) (orders s)\<rparr>))
          else None)"

text \<open>\<^verbatim>\<open>Order.findByIdAndDelete(id)\<close> on the path parameter \<open>p\<close>.\<close>

definition Order_findByIdAndDelete ::
  "lib \<Rightarrow> env \<Rightarrow> string \<Rightarrow> db \<Rightarrow> (order option \<times> db) option" where
  "Order_findByIdAndDelete L e p s =
     (case castObjectId L p of
        None \<Rightarrow> None
      | Some i \<Rightarrow>
          if write_ok e then
            (case find_by_id i (orders s) of
               None \<Rightarrow> Some (None, s)
             | Some d \<Rightarrow> Some (Some d, s\<lparr>orders := remove_first (\<lambda>d. oid d = i) (orders s)\<rparr>))
          else None)"

text \<open>\<^verbatim>\<open>.sort({ createdAt: -1 })\<close>: latest first, documents of one instant in
  insertion order.\<close>

definition sort_createdAt_desc :: "order list \<Rightarrow> order list" where
  "sort_createdAt_desc os = sort_key (\<lambda>d. - int (createdAt d)) os"

text \<open>\<^verbatim>\<open>new User({...})\<close> and \<^verbatim>\<open>user.save()\<close>: \<^verbatim>\<open>name\<close> and \<^verbatim>\<open>password\<close> are
  \<^verbatim>\<open>required\<close> (a required string is there and not empty). A filter value that is
  \<^verbatim>\<open>undefined\<close> matches a document without the path, so after the handler's
  \<^verbatim>\<open>findOne\<close> found nothing the \<^verbatim>\<open>unique\<close> indexes on \<^verbatim>\<open>email\<close> and \<^verbatim>\<open>mobile\<close>
  have nothing to refuse.\<close>

definition User_save ::
  "env \<Rightarrow> string option \<Rightarrow> string option \<Rightarrow> string option \<Rightarrow> string \<Rightarrow> string option \<Rightarrow> db
     \<Rightarrow> (user_doc \<times> db) option" where
  "User_save e nm mb em hashed img s =
     (case nm of
        None \<Rightarrow> None
      | Some n \<Rightarrow>
          if write_ok e \<and> n \<noteq> [] \<and> hashed \<noteq> [] \<and> new_id e \<notin> set (map uid (users s)) then
            (let u = \<lparr>uid = new_id e, name = n, mobile = mb, email = em,
                      password = hashed, profileImage = img\<rparr>
             in Some (u, s\<lparr>users := users s @ [u]\<rparr>))
          else None)"

definition FoodItem_save :: "lib \<Rightarrow> env \<Rightarrow> string \<Rightarrow> string \<Rightarrow> string \<Rightarrow> string \<Rightarrow> string \<Rightarrow> db
     \<Rightarrow> (food_item \<times> db) option" where
  "FoodItem_save L e nm pr ds ty img s =
     (case castNumber L pr of
        None \<Rightarrow> None
      | Some p \<Rightarrow>
          if write_ok e \<and> nm \<noteq> [] \<and> ds \<noteq> [] \<and> ty \<noteq> [] \<and> new_uuid e \<notin> set (map fid (foodItems s)) then
            (let f = \<lparr>fid = new_uuid e, fname = nm, image_path = img, price = p,
                      description = ds, ftype = ty\<rparr>
             in Some (f, s\<lparr>foodItems := foodItems s @ [f]\<rparr>))
          else None)"

section \<open>The guard\<close>

datatype guard = Reject response | Continue request

definition authenticateJWT :: "lib \<Rightarrow> request \<Rightarrow> guard" where
  "authenticateJWT L req =
     (let token = (case authorization req of None \<Rightarrow> None | Some h \<Rightarrow> index (js_split h) 1) in
      if falsy token then Reject (Response 401 (Send ''Access denied''))
      else (case token of
              None \<Rightarrow> Reject (Response 401 (Send ''Access denied''))
            | Some t \<Rightarrow>
                (case jwt_verify L t JWT_SECRET of
                   None \<Rightarrow> Reject (Response 403 (Send ''Invalid token''))
                 | Some u \<Rightarrow> Continue (req\<lparr>user := Some u\<rparr>))))"

section \<open>Food item routes\<close>

definition get_food_items :: "env \<Rightarrow> db \<Rightarrow> response \<times> db" where
  "get_food_items e s =
     (if find_ok e then (Response 200 (FoodItemsJson (foodItems s)), s)
      else (Response 500 (MessageError ''Error fetching food items''), s))"

definition post_food_items :: "lib \<Rightarrow> env \<Rightarrow> food_body \<Rightarrow> string option \<Rightarrow> db \<Rightarrow> response \<times> db" where
  "post_food_items L e b file s =
     (if falsy (fb_name b) \<or> falsy (fb_price b) \<or> falsy (fb_description b)
         \<or> falsy (fb_type b) \<or> falsy file
      then (Response 400 (Message ''All fields are required''), s)
      else (case (fb_name b, fb_price b, fb_description b, fb_type b, file) of
              (Some nm, Some pr, Some ds, Some ty, Some img) \<Rightarrow>
                (case FoodItem_save L e nm pr ds ty img s of
                   None \<Rightarrow> (Response 400 (MessageError ''Error adding food item''), s)
                 | Some (f, s') \<Rightarrow> (Response 201 (FoodItemJson f), s'))
            | _ \<Rightarrow> (Response 400 (Message ''All fields are required''), s)))"

definition delete_food_item :: "env \<Rightarrow> string \<Rightarrow> db \<Rightarrow> response \<times> db" where
  "delete_food_item e i s =
     (if write_ok e then
        (case find (\<lambda>f. fid f = i) (foodItems s) of
           None \<Rightarrow> (Response 404 (Message ''Food item not found''), s)
         | Some f \<Rightarrow> (Response 200 (FoodItemDeleted f),
                      s\<lparr>foodItems := remove_first (\<lambda>f. fid f = i) (foodItems s)\<rparr>))
      else (Response 500 (MessageError ''Error deleting food item''), s))"

definition post_uploadImage :: "string option \<Rightarrow> db \<Rightarrow> response \<times> db" where
  "post_uploadImage file s =
     (case file of
        None \<Rightarrow> (Response 400 (Message ''No file uploaded''), s)
      | Some p \<Rightarrow> (Response 200 (Send (''File uploaded: '' @ p)), s))"

section \<open>Order routes\<close>

text \<open>The handler of \<^verbatim>\<open>GET /orders\<close>, behind the guard: \<^verbatim>\<open>req.user.email\<close> of a request
  without \<^verbatim>\<open>req.user\<close> throws inside the \<^verbatim>\<open>try\<close>.\<close>

definition get_orders :: "env \<Rightarrow> request \<Rightarrow> db \<Rightarrow> response \<times> db" where
  "get_orders e req s =
     (case user req of
        None \<Rightarrow> (Response 500 (MessageError ''Error fetching orders''), s)
      | Some c \<Rightarrow>
          if find_ok e then
            (let found = sort_createdAt_desc
                           (filter (\<lambda>d. ud_email (userDetails d) = claim_email c) (orders s))
             in if length found = 0
                then (Response 404 (Message ''No orders found for this user''), s)
                else (Response 200 (OrdersJson found), s))
          else (Response 500 (MessageError ''Error fetching orders''), s))"

definition get_allorders :: "env \<Rightarrow> db \<Rightarrow> response \<times> db" where
  "get_allorders e s =
     (if find_ok e then
        (let allOrders = sort_createdAt_desc (orders s)
         in if length allOrders = 0 then (Response 404 (Message ''No orders found''), s)
            else (Response 200 (OrdersJson allOrders), s))
      else (Response 500 (MessageError ''Error fetching all orders''), s))"

definition post_orders :: "lib \<Rightarrow> env \<Rightarrow> order_body \<Rightarrow> db \<Rightarrow> response \<times> db" where
  "post_orders L e b s =
     (case new_Order L e b of
        None \<Rightarrow> (Response 500 (Message ''Failed to submit order''), s)
      | Some newOrder \<Rightarrow>
          (case Order_save e newOrder s of
             None \<Rightarrow> (Response 500 (Message ''Failed to submit order''), s)
           | Some s' \<Rightarrow> (Response 201 (Message ''Order submitted successfully''), s')))"

text \<open>\<^verbatim>\<open>['Pending', 'Delivered', 'Rejected'].includes(status)\<close>\<close>

definition includes_status :: "string field \<Rightarrow> bool" where
  "includes_status st = (case st of Given v \<Rightarrow> v \<in> set status_enum | _ \<Rightarrow> False)"

definition put_order :: "lib \<Rightarrow> env \<Rightarrow> string \<Rightarrow> string field \<Rightarrow> db \<Rightarrow> response \<times> db" where
  "put_order L e i st s =
     (if \<not> includes_status st then (Response 400 (Message ''Invalid status''), s)
      else (case st of
              Given v \<Rightarrow>
                (case Order_findByIdAndUpdate L e i v s of
                   None \<Rightarrow> (Response 500 (MessageError ''Error updating order''), s)
                 | Some (None, s') \<Rightarrow>
                     (Response 404 (Message (''Order with ID '' @ i @ '' not found'')), s')
                 | Some (Some updatedOrder, s') \<Rightarrow> (Response 200 (OrderJson updatedOrder), s'))
            | _ \<Rightarrow> (Response 400 (Message ''Invalid status''), s)))"

definition delete_order :: "lib \<Rightarrow> env \<Rightarrow> string \<Rightarrow> db \<Rightarrow> response \<times> db" where
  "delete_order L e i s =
     (case Order_findByIdAndDelete L e i s of
        None \<Rightarrow> (Response 500 (MessageError ''Error deleting order''), s)
      | Some (None, s') \<Rightarrow> (Response 404 (Message ''Order not found''), s')
      | Some (Some deletedOrder, s') \<Rightarrow> (Response 200 (OrderDeleted deletedOrder), s'))"

section \<open>User routes\<close>

text \<open>The handlers run after multer stored the upload, if any: \<open>file\<close> is
  \<^verbatim>\<open>req.file.path\<close>.\<close>

definition post_signup :: "lib \<Rightarrow> env \<Rightarrow> signup_body \<Rightarrow> string option \<Rightarrow> db \<Rightarrow> response \<times> db" where
  "post_signup L e b file s =
     (if \<not> find_ok e then (Response 500 (Send ''Error registering user''), s)
      else (case find (\<lambda>u. email u = s_email b \<or> mobile u = s_mobile b) (users s) of
              Some existingUser \<Rightarrow>
                (Response 400 (Send ''Email or mobile number already in use''), s)
            | None \<Rightarrow>
                (case bcryptjs_hash L (s_password b) 10 of
                   None \<Rightarrow> (Response 500 (Send ''Error registering user''), s)
                 | Some hashedPassword \<Rightarrow>
                     (case User_save e (s_name b) (s_mobile b) (s_email b) hashedPassword file s of
                        None \<Rightarrow> (Response 500 (Send ''Error registering user''), s)
                      | Some (u, s') \<Rightarrow>
                          (Response 201
                             (AuthJson (jwt_sign L \<lparr>claim_email = email u\<rparr> JWT_SECRET)
                                (name u) (email u)), s')))))"

definition post_adminsignup :: "lib \<Rightarrow> env \<Rightarrow> signup_body \<Rightarrow> string option \<Rightarrow> db \<Rightarrow> response \<times> db" where
  "post_adminsignup L e b file s =
     (if \<not> find_ok e then (Response 500 (Send ''Error registering user''), s)
      else (case find (\<lambda>u. email u = s_email b \<or> mobile u = s_mobile b) (users s) of
              Some existingUser \<Rightarrow>
                (Response 400 (Send ''Email or mobile number already in use''), s)
            | None \<Rightarrow>
                (case bcryptjs_hash L (s_password b) 10 of
                   None \<Rightarrow> (Response 500 (Send ''Error registering user''), s)
                 | Some hashedPassword \<Rightarrow>
                     (case User_save e (s_name b) (s_mobile b) (s_email b) hashedPassword file s of
                        None \<Rightarrow> (Response 500 (Send ''Error registering user''), s)
                      | Some (u, s') \<Rightarrow>
                          (Response 201
                             (AuthJson (jwt_sign L \<lparr>claim_email = email u\<rparr> JWT_SECRET)
                                (name u) (email u)), s')))))"

definition post_signin :: "lib \<Rightarrow> env \<Rightarrow> signin_body \<Rightarrow> db \<Rightarrow> response \<times> db" where
  "post_signin L e b s =
     (if \<not> find_ok e then (Response 500 (Send ''Error signing in''), s)
      else (case find (\<lambda>u. email u = si_identifier b \<or> mobile u = si_identifier b) (users s) of
              None \<Rightarrow> (Response 401 (Send ''Invalid credentials''), s)
            | Some u \<Rightarrow>
                (case bcryptjs_compare L (si_password b) (password u) of
                   None \<Rightarrow> (Response 500 (Send ''Error signing in''), s)
                 | Some isMatch \<Rightarrow>
                     if \<not> isMatch then (Response 401 (Send ''Invalid credentials''), s)
                     else (Response 200
                             (AuthJson (jwt_sign L \<lparr>claim_email = email u\<rparr> JWT_SECRET)
                                (name u) (email u)), s))))"

definition post_adminsignin :: "lib \<Rightarrow> env \<Rightarrow> signin_body \<Rightarrow> db \<Rightarrow> response \<times> db" where
  "post_adminsignin L e b s =
     (if \<not> find_ok e then (Response 500 (Send ''Error signing in''), s)
      else (case find (\<lambda>u. email u = si_identifier b \<or> mobile u = si_identifier b) (users s) of
              None \<Rightarrow> (Response 401 (Send ''Invalid credentials''), s)
            | Some u \<Rightarrow>
                (case bcryptjs_compare L (si_password b) (password u) of
                   None \<Rightarrow> (Response 500 (Send ''Error signing in''), s)
                 | Some isMatch \<Rightarrow>
                     if \<not> isMatch then (Response 401 (Send ''Invalid credentials''), s)
                     else (Response 200
                             (AuthJson (jwt_sign L \<lparr>claim_email = email u\<rparr> JWT_SECRET)
                                (name u) (email u)), s))))"

definition get_profile :: "env \<Rightarrow> request \<Rightarrow> db \<Rightarrow> response \<times> db" where
  "get_profile e req s =
     (case user req of
        None \<Rightarrow> (Response 500 (MessageError ''Error fetching user profile''), s)
      | Some c \<Rightarrow>
          if find_ok e then
            (case find (\<lambda>u. email u = claim_email c) (users s) of
               None \<Rightarrow> (Response 404 (Message ''User not found''), s)
             | Some u \<Rightarrow>
                 (Response 200 (UserJson (uid u) (name u) (mobile u) (email u) (profileImage u)), s))
          else (Response 500 (MessageError ''Error fetching user profile''), s))"

definition get_protected :: "request \<Rightarrow> db \<Rightarrow> response \<times> db" where
  "get_protected req s = (Response 200 (Send ''This is a protected route''), s)"

section \<open>The application\<close>

text \<open>A guarded route runs its handler on the request the guard passes on.\<close>

definition guarded :: "lib \<Rightarrow> request \<Rightarrow> (request \<Rightarrow> db \<Rightarrow> response \<times> db) \<Rightarrow> db \<Rightarrow> response \<times> db" where
  "guarded L req h s =
     (case authenticateJWT L req of Reject r \<Rightarrow> (r, s) | Continue req' \<Rightarrow> h req' s)"

datatype route =
    GET_food_items
  | POST_food_items food_body "string option"
  | DELETE_food_items string
  | POST_uploadImage "string option"
  | GET_orders request
  | GET_allorders
  | POST_orders order_body
  | PUT_orders string "string field"
  | DELETE_orders string
  | POST_signup signup_body "string option"
  | POST_adminsignup signup_body "string option"
  | POST_signin signin_body
  | POST_adminsignin signin_body
  | GET_profile request
  | GET_protected request

fun handle :: "lib \<Rightarrow> env \<Rightarrow> route \<Rightarrow> db \<Rightarrow> response \<times> db" where
  "handle L e GET_food_items s = get_food_items e s"
| "handle L e (POST_food_items b file) s = post_food_items L e b file s"
| "handle L e (DELETE_food_items i) s = delete_food_item e i s"
| "handle L e (POST_uploadImage file) s = post_uploadImage file s"
| "handle L e (GET_orders req) s = guarded L req (get_orders e) s"
| "handle L e GET_allorders s = get_allorders e s"
| "handle L e (POST_orders b) s = post_orders L e b s"
| "handle L e (PUT_orders i st) s = put_order L e i st s"
| "handle L e (DELETE_orders i) s = delete_order L e i s"
| "handle L e (POST_signup b file) s = post_signup L e b file s"
| "handle L e (POST_adminsignup b file) s = post_adminsignup L e b file s"
| "handle L e (POST_signin b) s = post_signin L e b s"
| "handle L e (POST_adminsignin b) s = post_adminsignin L e b s"
| "handle L e (GET_profile req) s = guarded L req (get_profile e) s"
| "handle L e (GET_protected req) s = guarded L req get_protected s"

text \<open>A sequence of requests, each with what it takes from the world, served in order.\<close>

fun serve :: "lib \<Rightarrow> (env \<times> route) list \<Rightarrow> db \<Rightarrow> db" where
  "serve L [] s = s"
| "serve L ((e, r) # rs) s = serve L rs (snd (handle L e r s))"

definition status_of :: "object_id \<Rightarrow> db \<Rightarrow> string option" where
  "status_of i s = map_option status (find_by_id i (orders s))"

text \<open>The requests that update the order \<open>i\<close> and those that remove it: a
  \<^verbatim>\<open>PUT /orders/:id\<close>, a \<^verbatim>\<open>DELETE /orders/:id\<close> whose path parameter is cast to \<open>i\<close>.\<close>

definition is_put :: "lib \<Rightarrow> object_id \<Rightarrow> route \<Rightarrow> bool" where
  "is_put L i r = (case r of PUT_orders p st \<Rightarrow> castObjectId L p = Some i | _ \<Rightarrow> False)"

definition is_delete :: "lib \<Rightarrow> object_id \<Rightarrow> route \<Rightarrow> bool" where
  "is_delete L i r = (case r of DELETE_orders p \<Rightarrow> castObjectId L p = Some i | _ \<Rightarrow> False)"

section \<open>Sample data\<close>

text \<open>Stand-ins for bcryptjs, jsonwebtoken and the casts of Mongoose, clock readings and
  small stores, on which the handlers are run below. Of a purchaser snapshot that is no
  object the stand-in keeps nothing; the empty object given as line list it wraps into a
  list of one line.\<close>

definition stub_lib :: lib where
  "stub_lib =
     \<lparr>bcrypt_hash = (\<lambda>pw rounds. Some (CHR ''#'' # pw)),
      bcrypt_compare = (\<lambda>pw h. Some (CHR ''#'' # pw = h)),
      jwt_sign = (\<lambda>c key. CHR ''.'' # (case claim_email c of None \<Rightarrow> [] | Some em \<Rightarrow> em)),
      jwt_verify = (\<lambda>t key. case t of [] \<Rightarrow> None
                              | c # em \<Rightarrow> if c = CHR ''.'' then Some \<lparr>claim_email = Some em\<rparr> else None),
      castNumber = (\<lambda>str. None),
      cast_userDetails = (\<lambda>raw. Some \<lparr>ud_name = None, ud_email = None\<rparr>),
      cast_orderDetails = (\<lambda>raw. if raw = ''{}''
                                  then Some [\<lparr>foodName = None, foodPrice = None, quantity = None\<rparr>]
                                  else None),
      cast_totalAmount = (\<lambda>raw. None),
      cast_paymentMethod = (\<lambda>raw. Some (Some raw)),
      cast12 = (\<lambda>p. None)\<rparr>"

definition id1 :: object_id where
  "id1 = ObjectId ''65a1f0c2b7e4d3a9c8f01b21''"

definition id2 :: object_id where
  "id2 = ObjectId ''65a1f0c2b7e4d3a9c8f01b22''"

definition id3 :: object_id where
  "id3 = ObjectId ''65a1f0c2b7e4d3a9c8f01b23''"

definition id4 :: object_id where
  "id4 = ObjectId ''65a1f0c2b7e4d3a9c8f01b24''"

definition env0 :: env where
  "env0 = \<lparr>now = 5, new_id = id2, new_uuid = ''f1'', find_ok = True, write_ok = True\<rparr>"

definition env1 :: env where
  "env1 = \<lparr>now = 6, new_id = id3, new_uuid = ''f2'', find_ok = True, write_ok = True\<rparr>"

definition order1 :: order where
  "order1 = \<lparr>oid = id1,
     userDetails = \<lparr>ud_name = Some ''A'', ud_email = Some ''a@x.com''\<rparr>,
     orderDetails = [\<lparr>foodName = Some ''Burger'', foodPrice = Some 5, quantity = Some 2\<rparr>],
     totalAmount = Some 10, paymentMethod = Some ''cash'', status = ''Delivered'',
     createdAt = 1, updatedAt = 1\<rparr>"

definition order2 :: order where
  "order2 = \<lparr>oid = id2,
     userDetails = \<lparr>ud_name = Some ''A'', ud_email = Some ''a@x.com''\<rparr>,
     orderDetails = [], totalAmount = None, paymentMethod = None, status = ''Pending'',
     createdAt = 3, updatedAt = 3\<rparr>"

definition order3 :: order where
  "order3 = \<lparr>oid = id3,
     userDetails = \<lparr>ud_name = Some ''B'', ud_email = Some ''b@x.com''\<rparr>,
     orderDetails = [], totalAmount = None, paymentMethod = None, status = ''Pending'',
     createdAt = 4, updatedAt = 4\<rparr>"

definition user1 :: user_doc where
  "user1 = \<lparr>uid = id1, name = ''A'', mobile = None, email = Some ''a@x.com'',
     password = ''#pw1'', profileImage = None\<rparr>"


definition db0 :: db where
  "db0 = \<lparr>foodItems = [], orders = [], users = []\<rparr>"

definition db1 :: db where
  "db1 = \<lparr>foodItems = [], orders = [order1], users = [user1]\<rparr>"


definition db3 :: db where
  "db3 = \<lparr>foodItems = [], orders = [order1, order2, order3], users = [user1]\<rparr>"

definition empty_order_body :: order_body where
  "empty_order_body = \<lparr>b_userDetails = Given \<lparr>ud_name = None, ud_email = None\<rparr>,
     b_orderDetails = Given [], b_totalAmount = Absent, b_paymentMethod = Absent\<rparr>"

definition signup_a :: signup_body where
  "signup_a = \<lparr>s_name = Some ''A2'', s_mobile = Some ''555'', s_email = Some ''a@x.com'',
     s_password = Some ''pw2''\<rparr>"

definition req_a :: request where
  "req_a = \<lparr>authorization = Some ''Bearer .a@x.com'', user = Some \<lparr>claim_email = Some ''a@x.com''\<rparr>\<rparr>"

definition req_c :: request where
  "req_c = \<lparr>authorization = Some ''Bearer .c@x.com'', user = Some \<lparr>claim_email = Some ''c@x.com''\<rparr>\<rparr>"






section \<open>The bearer token of a request\<close>

lemma js_split_no_space: "CHR '' '' \<notin> set s \<Longrightarrow> js_split s = [s]"
  by (induction s) auto

lemma js_split_space: "CHR '' '' \<notin> set a \<Longrightarrow> js_split (a @ CHR '' '' # r) = a # js_split r"
  by (induction a) auto

lemma js_split_head:
  "CHR '' '' \<notin> set t \<Longrightarrow> rest = [] \<or> hd rest = CHR '' '' \<Longrightarrow> \<exists>ws. js_split (t @ rest) = t # ws"
proof (cases rest)
  case Nil
  assume "CHR '' '' \<notin> set t"
  then show ?thesis using Nil by (simp add: js_split_no_space)
next
  case (Cons c cs)
  assume a: "CHR '' '' \<notin> set t" and "rest = [] \<or> hd rest = CHR '' ''"
  then have "c = CHR '' ''" using Cons by simp
  then show ?thesis using Cons a by (simp add: js_split_space)
qed

lemma index_second:
  assumes "CHR '' '' \<notin> set sch" "CHR '' '' \<notin> set t" "rest = [] \<or> hd rest = CHR '' ''"
  shows "index (js_split (sch @ '' '' @ t @ rest)) 1 = Some t"
proof -
  obtain ws where "js_split (t @ rest) = t # ws"
    using js_split_head[OF assms(2,3)] by blast
  then show ?thesis using assms(1) by (simp add: js_split_space index_def)
qed

lemma index_no_space: "CHR '' '' \<notin> set h \<Longrightarrow> index (js_split h) 1 = None"
  by (simp add: js_split_no_space index_def)

text \<open>Every header with a space is a first word, a space, a second piece without space,
  and a rest that is empty or starts with a space.\<close>

lemma header_shape:
  assumes "CHR '' '' \<in> set h"
  shows "\<exists>sch t rest. h = sch @ '' '' @ t @ rest \<and> CHR '' '' \<notin> set sch \<and> CHR '' '' \<notin> set t
           \<and> (rest = [] \<or> hd rest = CHR '' '')"
proof -
  let ?ns = "\<lambda>c. c \<noteq> CHR '' ''"
  let ?sch = "takeWhile ?ns h"
  let ?r = "dropWhile ?ns h"
  have r: "?r \<noteq> []" "hd ?r = CHR '' ''"
    using assms hd_dropWhile[of ?ns h] by auto
  let ?t = "takeWhile ?ns (tl ?r)"
  let ?rest = "dropWhile ?ns (tl ?r)"
  have "h = ?sch @ ?r" by simp
  also have "?r = CHR '' '' # tl ?r" using r by (cases ?r) auto
  also have "tl ?r = ?t @ ?rest" by simp
  finally have "h = ?sch @ '' '' @ ?t @ ?rest" by simp
  moreover have "CHR '' '' \<notin> set ?sch" "CHR '' '' \<notin> set ?t"
    by (auto dest: set_takeWhileD)
  moreover have "?rest = [] \<or> hd ?rest = CHR '' ''"
    using hd_dropWhile[of ?ns "tl ?r"] by auto
  ultimately show ?thesis by blast
qed

lemma issued_token_passes_guard:
  assumes "jwt_verify L (jwt_sign L c JWT_SECRET) JWT_SECRET = Some c"
    and "jwt_sign L c JWT_SECRET \<noteq> []"
    and "CHR '' '' \<notin> set (jwt_sign L c JWT_SECRET)"
    and "authorization req = Some (''Bearer '' @ jwt_sign L c JWT_SECRET)"
  shows "authenticateJWT L req = Continue (req\<lparr>user := Some c\<rparr>)"
proof -
  have "index (js_split (''Bearer'' @ '' '' @ jwt_sign L c JWT_SECRET @ [])) 1
          = Some (jwt_sign L c JWT_SECRET)"
    using assms(3) by (intro index_second) simp_all
  then show ?thesis
    using assms(1,2,4) by (simp add: authenticateJWT_def falsy_def)
qed

text \<open>
  C2, as the specification states it (401 when no bearer credential is present), fails:
  the guard never reads the scheme word of the header. A \<^verbatim>\<open>Basic\<close> header is verified
  like a bearer one, so it is answered 403, or passed on when what follows the scheme is a
  valid token; and \<^verbatim>\<open>Bearer\<close> followed by two spaces and a valid token is answered 401.
\<close>

theorem guard_ignores_scheme:
  "authenticateJWT stub_lib \<lparr>authorization = Some ''Basic dXNlcjpwYXNz'', user = None\<rparr>
     = Reject (Response 403 (Send ''Invalid token''))
   \<and> authenticateJWT stub_lib \<lparr>authorization = Some ''Basic .a@x.com'', user = None\<rparr>
     = Continue \<lparr>authorization = Some ''Basic .a@x.com'',
                   user = Some \<lparr>claim_email = Some ''a@x.com''\<rparr>\<rparr>
   \<and> authenticateJWT stub_lib \<lparr>authorization = Some ''Bearer  .a@x.com'', user = None\<rparr>
     = Reject (Response 401 (Send ''Access denied''))"
  by (simp add: authenticateJWT_def index_def falsy_def stub_lib_def)

lemma guard_401:
  assumes "authorization req = None
      \<or> (authorization req = Some h \<and> CHR '' '' \<notin> set h)
      \<or> (authorization req = Some (sch @ '' '' @ tail) \<and> CHR '' '' \<notin> set sch
           \<and> (tail = [] \<or> hd tail = CHR '' ''))"
  shows "authenticateJWT L req = Reject (Response 401 (Send ''Access denied''))"
  using assms
proof (elim disjE)
  assume "authorization req = None"
  then show ?thesis by (simp add: authenticateJWT_def falsy_def)
next
  assume "authorization req = Some h \<and> CHR '' '' \<notin> set h"
  then have "authorization req = Some h" and "index (js_split h) 1 = None"
    using index_no_space by blast+
  then show ?thesis by (simp add: authenticateJWT_def falsy_def)
next
  assume a: "authorization req = Some (sch @ '' '' @ tail) \<and> CHR '' '' \<notin> set sch
           \<and> (tail = [] \<or> hd tail = CHR '' '')"
  then have "index (js_split (sch @ '' '' @ [] @ tail)) 1 = Some []"
    by (intro index_second) simp_all
  with a show ?thesis by (simp add: authenticateJWT_def falsy_def)
qed

lemma guard_verify:
  assumes "authorization req = Some (sch @ '' '' @ t @ rest)" and "CHR '' '' \<notin> set sch"
    and "t \<noteq> []" and "CHR '' '' \<notin> set t" and "rest = [] \<or> hd rest = CHR '' ''"
  shows "authenticateJWT L req =
           (case jwt_verify L t JWT_SECRET of
              None \<Rightarrow> Reject (Response 403 (Send ''Invalid token''))
            | Some u \<Rightarrow> Continue (req\<lparr>user := Some u\<rparr>))"
proof -
  have "index (js_split (sch @ '' '' @ t @ rest)) 1 = Some t"
    using assms(2,4,5) by (rule index_second)
  then show ?thesis
    using assms(1,3) by (simp add: authenticateJWT_def falsy_def split: option.splits)
qed

text \<open>
  C2, amended. For every request to a guarded route (\<^verbatim>\<open>GET /orders\<close>, \<^verbatim>\<open>GET /profile\<close>,
  \<^verbatim>\<open>GET /protected\<close>) the credential is what stands between the first and the second
  space of the \<^verbatim>\<open>Authorization\<close> header, whatever the word before the first space. With
  no header, no space or an empty credential the guard answers 401 \<^verbatim>\<open>Access denied\<close>;
  with a credential whose verification under \<open>JWT_SECRET\<close> fails it answers 403
  \<^verbatim>\<open>Invalid token\<close>; in both cases that is the answer of the route and the store is
  unchanged. With a credential that verifies, the claim is attached to the request as
  \<^verbatim>\<open>req.user\<close> and the answer of the route is the answer of its handler on that
  request.
\<close>

theorem authenticateJWT_guard:
  "((authorization req = None
      \<or> (authorization req = Some h \<and> CHR '' '' \<notin> set h)
      \<or> (authorization req = Some (sch @ '' '' @ tail) \<and> CHR '' '' \<notin> set sch
           \<and> (tail = [] \<or> hd tail = CHR '' ''))) \<longrightarrow>
      authenticateJWT L req = Reject (Response 401 (Send ''Access denied''))
      \<and> handle L e (GET_orders req) s = (Response 401 (Send ''Access denied''), s)
      \<and> handle L e (GET_profile req) s = (Response 401 (Send ''Access denied''), s)
      \<and> handle L e (GET_protected req) s = (Response 401 (Send ''Access denied''), s))
   \<and> (authorization req = Some (sch @ '' '' @ t @ rest) \<and> CHR '' '' \<notin> set sch
        \<and> t \<noteq> [] \<and> CHR '' '' \<notin> set t \<and> (rest = [] \<or> hd rest = CHR '' '') \<longrightarrow>
      (jwt_verify L t JWT_SECRET = None \<longrightarrow>
         authenticateJWT L req = Reject (Response 403 (Send ''Invalid token''))
         \<and> handle L e (GET_orders req) s = (Response 403 (Send ''Invalid token''), s)
         \<and> handle L e (GET_profile req) s = (Response 403 (Send ''Invalid token''), s)
         \<and> handle L e (GET_protected req) s = (Response 403 (Send ''Invalid token''), s))
      \<and> (jwt_verify L t JWT_SECRET = Some u \<longrightarrow>
         authenticateJWT L req = Continue (req\<lparr>user := Some u\<rparr>)
         \<and> handle L e (GET_orders req) s = get_orders e (req\<lparr>user := Some u\<rparr>) s
         \<and> handle L e (GET_profile req) s = get_profile e (req\<lparr>user := Some u\<rparr>) s
         \<and> handle L e (GET_protected req) s = get_protected (req\<lparr>user := Some u\<rparr>) s))"
proof (intro conjI impI)
  assume a: "authorization req = None
      \<or> (authorization req = Some h \<and> CHR '' '' \<notin> set h)
      \<or> (authorization req = Some (sch @ '' '' @ tail) \<and> CHR '' '' \<notin> set sch
           \<and> (tail = [] \<or> hd tail = CHR '' ''))"
  then show g: "authenticateJWT L req = Reject (Response 401 (Send ''Access denied''))"
    by (rule guard_401)
  show "handle L e (GET_orders req) s = (Response 401 (Send ''Access denied''), s)"
    "handle L e (GET_profile req) s = (Response 401 (Send ''Access denied''), s)"
    "handle L e (GET_protected req) s = (Response 401 (Send ''Access denied''), s)"
    using g by (simp_all add: guarded_def)
next
  assume a: "authorization req = Some (sch @ '' '' @ t @ rest) \<and> CHR '' '' \<notin> set sch
        \<and> t \<noteq> [] \<and> CHR '' '' \<notin> set t \<and> (rest = [] \<or> hd rest = CHR '' '')"
  assume v: "jwt_verify L t JWT_SECRET = None"
  show g: "authenticateJWT L req = Reject (Response 403 (Send ''Invalid token''))"
    using a v guard_verify[of req sch t rest L] by simp
  show "handle L e (GET_orders req) s = (Response 403 (Send ''Invalid token''), s)"
    "handle L e (GET_profile req) s = (Response 403 (Send ''Invalid token''), s)"
    "handle L e (GET_protected req) s = (Response 403 (Send ''Invalid token''), s)"
    using g by (simp_all add: guarded_def)
next
  assume a: "authorization req = Some (sch @ '' '' @ t @ rest) \<and> CHR '' '' \<notin> set sch
        \<and> t \<noteq> [] \<and> CHR '' '' \<notin> set t \<and> (rest = [] \<or> hd rest = CHR '' '')"
  assume v: "jwt_verify L t JWT_SECRET = Some u"
  show g: "authenticateJWT L req = Continue (req\<lparr>user := Some u\<rparr>)"
    using a v guard_verify[of req sch t rest L] by simp
  show "handle L e (GET_orders req) s = get_orders e (req\<lparr>user := Some u\<rparr>) s"
    "handle L e (GET_profile req) s = get_profile e (req\<lparr>user := Some u\<rparr>) s"
    "handle L e (GET_protected req) s = get_protected (req\<lparr>user := Some u\<rparr>) s"
    using g by (simp_all add: guarded_def)
qed

theorem authenticateJWT_guard_witness:
  "handle stub_lib env0 (GET_orders \<lparr>authorization = None, user = None\<rparr>) db3
     = (Response 401 (Send ''Access denied''), db3)
   \<and> handle stub_lib env0 (GET_profile \<lparr>authorization = Some ''Bearer'', user = None\<rparr>) db3
     = (Response 401 (Send ''Access denied''), db3)
   \<and> handle stub_lib env0 (GET_protected \<lparr>authorization = Some ''Bearer '', user = None\<rparr>) db3
     = (Response 401 (Send ''Access denied''), db3)
   \<and> handle stub_lib env0 (GET_orders \<lparr>authorization = Some ''Bearer x.y'', user = None\<rparr>) db3
     = (Response 403 (Send ''Invalid token''), db3)
   \<and> authenticateJWT stub_lib \<lparr>authorization = Some ''Bearer .a@x.com'', user = None\<rparr>
     = Continue \<lparr>authorization = Some ''Bearer .a@x.com'',
                   user = Some \<lparr>claim_email = Some ''a@x.com''\<rparr>\<rparr>
   \<and> handle stub_lib env0 (GET_orders \<lparr>authorization = Some ''Bearer .a@x.com'', user = None\<rparr>) db3
     = get_orders env0 \<lparr>authorization = Some ''Bearer .a@x.com'',
                          user = Some \<lparr>claim_email = Some ''a@x.com''\<rparr>\<rparr> db3"
proof -
  have v1: "jwt_verify stub_lib ''x.y'' JWT_SECRET = None"
    by (simp add: stub_lib_def)
  have v2: "jwt_verify stub_lib ''.a@x.com'' JWT_SECRET = Some \<lparr>claim_email = Some ''a@x.com''\<rparr>"
    by (simp add: stub_lib_def)
  note g = authenticateJWT_guard[where L = stub_lib and e = env0 and s = db3]
  have a: "handle stub_lib env0 (GET_orders \<lparr>authorization = None, user = None\<rparr>) db3
     = (Response 401 (Send ''Access denied''), db3)"
    using g[where req = "\<lparr>authorization = None, user = None\<rparr>" and h = "[]" and sch = "[]"
        and tail = "[]" and t = "[]" and rest = "[]" and u = "\<lparr>claim_email = None\<rparr>"]
    by simp
  have b: "handle stub_lib env0 (GET_profile \<lparr>authorization = Some ''Bearer'', user = None\<rparr>) db3
     = (Response 401 (Send ''Access denied''), db3)"
    using g[where req = "\<lparr>authorization = Some ''Bearer'', user = None\<rparr>" and h = "''Bearer''"
        and sch = "[]" and tail = "[]" and t = "[]" and rest = "[]"
        and u = "\<lparr>claim_email = None\<rparr>"]
    by simp
  have c: "handle stub_lib env0 (GET_protected \<lparr>authorization = Some ''Bearer '', user = None\<rparr>) db3
     = (Response 401 (Send ''Access denied''), db3)"
    using g[where req = "\<lparr>authorization = Some ''Bearer '', user = None\<rparr>" and h = "[]"
        and sch = "''Bearer''" and tail = "[]" and t = "[]" and rest = "[]"
        and u = "\<lparr>claim_email = None\<rparr>"]
    by simp
  have d: "handle stub_lib env0 (GET_orders \<lparr>authorization = Some ''Bearer x.y'', user = None\<rparr>) db3
     = (Response 403 (Send ''Invalid token''), db3)"
    using g[where req = "\<lparr>authorization = Some ''Bearer x.y'', user = None\<rparr>" and h = "[]"
        and sch = "''Bearer''" and tail = "''x.y''" and t = "''x.y''" and rest = "[]"
        and u = "\<lparr>claim_email = None\<rparr>"] v1
    by simp
  have e: "authenticateJWT stub_lib \<lparr>authorization = Some ''Bearer .a@x.com'', user = None\<rparr>
     = Continue \<lparr>authorization = Some ''Bearer .a@x.com'',
                   user = Some \<lparr>claim_email = Some ''a@x.com''\<rparr>\<rparr>
   \<and> handle stub_lib env0 (GET_orders \<lparr>authorization = Some ''Bearer .a@x.com'', user = None\<rparr>) db3
     = get_orders env0 \<lparr>authorization = Some ''Bearer .a@x.com'',
                          user = Some \<lparr>claim_email = Some ''a@x.com''\<rparr>\<rparr> db3"
    using g[where req = "\<lparr>authorization = Some ''Bearer .a@x.com'', user = None\<rparr>" and h = "[]"
        and sch = "''Bearer''" and tail = "''.a@x.com''" and t = "''.a@x.com''" and rest = "[]"
        and u = "\<lparr>claim_email = Some ''a@x.com''\<rparr>"] v2
    by simp
  show ?thesis using a b c d e by blast
qed

section \<open>What a route does to the order collection\<close>

lemma find_by_id_snoc:
  "find_by_id i (os @ [d]) = (case find_by_id i os of Some x \<Rightarrow> Some x | None \<Rightarrow> if oid d = i then Some d else None)"
  unfolding find_by_id_def by (induction os) auto

lemma find_by_id_None: "find_by_id i os = None \<longleftrightarrow> i \<notin> set (map oid os)"
  unfolding find_by_id_def by (induction os) auto

lemma map_oid_update_first:
  "(\<And>d. oid (f d) = oid d) \<Longrightarrow> map oid (update_first P f os) = map oid os"
  by (induction os) auto

lemma find_by_id_update_first_other:
  "i \<noteq> j \<Longrightarrow> (\<And>d. oid (f d) = oid d) \<Longrightarrow>
   find_by_id i (update_first (\<lambda>d. oid d = j) f os) = find_by_id i os"
  unfolding find_by_id_def by (induction os) auto

lemma find_by_id_update_first_same:
  "(\<And>d. oid (f d) = oid d) \<Longrightarrow>
   find_by_id i (update_first (\<lambda>d. oid d = i) f os) = map_option f (find_by_id i os)"
  unfolding find_by_id_def by (induction os) auto

lemma set_remove_first: "set (remove_first P xs) \<subseteq> set xs"
  by (induction xs) auto

lemma distinct_remove_first:
  "distinct (map oid os) \<Longrightarrow> distinct (map oid (remove_first P os))"
proof (induction os)
  case Nil
  then show ?case by simp
next
  case (Cons d os)
  have "oid ` set (remove_first P os) \<subseteq> oid ` set os"
    using set_remove_first by (rule image_mono)
  with Cons show ?case by auto
qed

lemma find_by_id_remove_first_other:
  "i \<noteq> j \<Longrightarrow> find_by_id i (remove_first (\<lambda>d. oid d = j) os) = find_by_id i os"
  unfolding find_by_id_def by (induction os) auto

lemma oid_notin_remove_first:
  "distinct (map oid os) \<Longrightarrow> i \<notin> set (map oid (remove_first (\<lambda>d. oid d = i) os))"
proof (induction os)
  case Nil
  then show ?case by simp
next
  case (Cons d os)
  show ?case
  proof (cases "oid d = i")
    case True
    then have "i \<notin> set (map oid os)" using Cons.prems by auto
    then show ?thesis using True by simp
  next
    case False
    moreover have "i \<notin> set (map oid (remove_first (\<lambda>d. oid d = i) os))"
      using Cons by simp
    ultimately show ?thesis by auto
  qed
qed

lemma find_by_id_remove_first_same:
  "distinct (map oid os) \<Longrightarrow> find_by_id i (remove_first (\<lambda>d. oid d = i) os) = None"
  using oid_notin_remove_first by (simp only: find_by_id_None)

lemma remove_first_absent: "find P xs = None \<Longrightarrow> remove_first P xs = xs"
  by (induction xs) (auto split: if_splits)

text \<open>Every route but three leaves the order collection as it is.\<close>

lemma guarded_orders:
  "(\<And>q. orders (snd (h q s)) = orders s) \<Longrightarrow> orders (snd (guarded L req h s)) = orders s"
  by (simp add: guarded_def split: guard.splits)

lemma get_food_items_orders: "orders (snd (get_food_items e s)) = orders s"
  by (simp add: get_food_items_def)

lemma post_food_items_orders: "orders (snd (post_food_items L e b file s)) = orders s"
  by (auto simp: post_food_items_def FoodItem_save_def Let_def split: option.splits if_splits)

lemma delete_food_item_orders: "orders (snd (delete_food_item e i s)) = orders s"
  by (simp add: delete_food_item_def split: option.splits)

lemma post_uploadImage_orders: "orders (snd (post_uploadImage file s)) = orders s"
  by (simp add: post_uploadImage_def split: option.splits)

lemma get_orders_orders: "orders (snd (get_orders e req s)) = orders s"
  by (simp add: get_orders_def Let_def split: option.splits)

lemma get_allorders_orders: "orders (snd (get_allorders e s)) = orders s"
  by (simp add: get_allorders_def Let_def)

lemma post_signup_orders: "orders (snd (post_signup L e b file s)) = orders s"
  by (auto simp: post_signup_def User_save_def Let_def split: option.splits if_splits)

lemma post_adminsignup_orders: "orders (snd (post_adminsignup L e b file s)) = orders s"
  by (auto simp: post_adminsignup_def User_save_def Let_def split: option.splits if_splits)

lemma post_signin_orders: "orders (snd (post_signin L e b s)) = orders s"
  by (simp add: post_signin_def split: option.splits)

lemma post_adminsignin_orders: "orders (snd (post_adminsignin L e b s)) = orders s"
  by (simp add: post_adminsignin_def split: option.splits)

lemma get_profile_orders: "orders (snd (get_profile e req s)) = orders s"
  by (simp add: get_profile_def split: option.splits)

lemma get_protected_orders: "orders (snd (get_protected req s)) = orders s"
  by (simp add: get_protected_def)

lemmas orders_kept =
  get_food_items_orders post_food_items_orders delete_food_item_orders post_uploadImage_orders
  get_orders_orders get_allorders_orders post_signup_orders post_adminsignup_orders
  post_signin_orders post_adminsignin_orders get_profile_orders get_protected_orders
  guarded_orders

text \<open>\<^verbatim>\<open>POST /orders\<close> appends one pending order under a new identifier;
  \<^verbatim>\<open>PUT /orders/:id\<close> updates and \<^verbatim>\<open>DELETE /orders/:id\<close> removes the order of the
  identifier its path parameter is cast to.\<close>

lemma new_Order_Some:
  "new_Order L e b = Some d \<Longrightarrow> oid d = new_id e \<and> status d = ''Pending''"
  by (auto simp: new_Order_def split: option.splits prod.splits)

lemma post_orders_cases:
  "(\<exists>d. new_Order L e b = Some d \<and> write_ok e \<and> new_id e \<notin> set (map oid (orders s))
        \<and> post_orders L e b s =
            (Response 201 (Message ''Order submitted successfully''), s\<lparr>orders := orders s @ [d]\<rparr>))
   \<or> post_orders L e b s = (Response 500 (Message ''Failed to submit order''), s)"
proof (cases "new_Order L e b")
  case None
  then show ?thesis by (simp add: post_orders_def)
next
  case (Some d)
  then have "oid d = new_id e" "status d = ''Pending''"
    using new_Order_Some by blast+
  then show ?thesis using Some
    by (simp add: post_orders_def Order_save_def status_enum_def)
qed

lemma post_orders_orders:
  "orders (snd (post_orders L e b s)) = orders s
   \<or> (\<exists>d. orders (snd (post_orders L e b s)) = orders s @ [d]
          \<and> oid d = new_id e \<and> oid d \<notin> set (map oid (orders s))
          \<and> status d = ''Pending'')"
  using post_orders_cases[of L e b s] new_Order_Some[of L e b] by auto

lemma put_order_orders:
  "orders (snd (put_order L e p st s)) = orders s
   \<or> (\<exists>v j. castObjectId L p = Some j
          \<and> orders (snd (put_order L e p st s))
             = update_first (\<lambda>d. oid d = j) (\<lambda>d. d\<lparr>status := v, updatedAt := now e\<rparr>) (orders s))"
  by (auto simp: put_order_def Order_findByIdAndUpdate_def
      split: option.splits if_splits field.splits)

lemma delete_order_orders:
  "orders (snd (delete_order L e p s)) =
     (case castObjectId L p of
        None \<Rightarrow> orders s
      | Some j \<Rightarrow> if write_ok e then remove_first (\<lambda>d. oid d = j) (orders s) else orders s)"
  by (simp add: delete_order_def Order_findByIdAndDelete_def find_by_id_def
      remove_first_absent split: option.splits)

lemma handle_distinct:
  assumes "distinct (map oid (orders s))"
  shows "distinct (map oid (orders (snd (handle L e r s))))"
proof (cases r)
  case (POST_orders b)
  then show ?thesis using assms post_orders_orders[of L e b s] by auto
next
  case (PUT_orders p st)
  then show ?thesis using assms put_order_orders[of L e p st s]
    by (auto simp: map_oid_update_first)
next
  case (DELETE_orders p)
  then show ?thesis using assms
    by (simp add: delete_order_orders distinct_remove_first split: option.splits)
qed (simp_all add: orders_kept assms)

lemma handle_keeps_order:
  assumes "distinct (map oid (orders s))" and "find_by_id i (orders s) = Some d"
    and "\<not> is_put L i r"
  shows "find_by_id i (orders (snd (handle L e r s))) =
           (if is_delete L i r \<and> write_ok e then None else Some d)"
proof (cases r)
  case (POST_orders b)
  then show ?thesis using assms post_orders_orders[of L e b s]
    by (auto simp: is_delete_def find_by_id_snoc)
next
  case (PUT_orders p st)
  then have "castObjectId L p \<noteq> Some i" using assms(3) by (simp add: is_put_def)
  then show ?thesis using PUT_orders assms put_order_orders[of L e p st s]
    by (auto simp: is_delete_def find_by_id_update_first_other)
next
  case (DELETE_orders p)
  then show ?thesis using assms
    by (auto simp: is_delete_def delete_order_orders find_by_id_remove_first_other
        find_by_id_remove_first_same split: option.splits)
qed (simp_all add: orders_kept assms is_delete_def)

lemma handle_absent_order:
  assumes "find_by_id i (orders s) = None" and "\<not> is_put L i r"
  shows "status_of i (snd (handle L e r s)) \<in> {None, Some ''Pending''}"
proof (cases r)
  case (POST_orders b)
  then show ?thesis using assms post_orders_orders[of L e b s]
    by (auto simp: status_of_def find_by_id_snoc)
next
  case (PUT_orders p st)
  have "find_by_id i (orders (snd (put_order L e p st s))) = None"
    using assms(1) put_order_orders[of L e p st s]
    by (auto simp: find_by_id_None map_oid_update_first simp del: set_map)
  then show ?thesis using PUT_orders by (simp add: status_of_def)
next
  case (DELETE_orders p)
  have "set (map oid (remove_first (\<lambda>d. oid d = j) (orders s))) \<subseteq> set (map oid (orders s))" for j
    using set_remove_first[of "\<lambda>d. oid d = j" "orders s"] by auto
  then have "find_by_id i (orders (snd (delete_order L e p s))) = None"
    using assms(1) unfolding find_by_id_None delete_order_orders
    by (auto split: option.splits)
  then show ?thesis using DELETE_orders by (simp add: status_of_def)
qed (simp_all add: orders_kept assms status_of_def)

lemma handle_pending_or_absent:
  assumes "distinct (map oid (orders s))" and "status_of i s \<in> {None, Some ''Pending''}"
    and "\<not> is_put L i r"
  shows "status_of i (snd (handle L e r s)) \<in> {None, Some ''Pending''}"
proof (cases "find_by_id i (orders s)")
  case None
  then show ?thesis using assms(3) by (rule handle_absent_order)
next
  case (Some d)
  then have "status d = ''Pending''" using assms(2) by (simp add: status_of_def)
  then show ?thesis using handle_keeps_order[OF assms(1) Some assms(3), of e]
    by (simp add: status_of_def)
qed

lemma serve_pending_or_absent:
  assumes "distinct (map oid (orders s))" and "status_of i s \<in> {None, Some ''Pending''}"
    and "\<forall>(e, r) \<in> set rs. \<not> is_put L i r"
  shows "status_of i (serve L rs s) \<in> {None, Some ''Pending''}"
  using assms
proof (induction rs arbitrary: s)
  case Nil
  then show ?case by simp
next
  case (Cons a rs)
  obtain e r where a: "a = (e, r)" by (cases a)
  have "\<not> is_put L i r" using Cons.prems(3) a by simp
  then have "status_of i (snd (handle L e r s)) \<in> {None, Some ''Pending''}"
    using Cons.prems(1,2) handle_pending_or_absent by blast
  moreover have "distinct (map oid (orders (snd (handle L e r s))))"
    using Cons.prems(1) by (rule handle_distinct)
  moreover have "\<forall>(e, r) \<in> set rs. \<not> is_put L i r" using Cons.prems(3) by simp
  ultimately show ?case using Cons.IH a by simp
qed

lemma serve_keeps_order:
  assumes "distinct (map oid (orders s))" and "find_by_id i (orders s) = Some d"
    and "\<forall>(e, r) \<in> set rs. \<not> is_put L i r \<and> \<not> is_delete L i r"
  shows "find_by_id i (orders (serve L rs s)) = Some d"
  using assms
proof (induction rs arbitrary: s)
  case Nil
  then show ?case by simp
next
  case (Cons a rs)
  obtain e r where a: "a = (e, r)" by (cases a)
  have r: "\<not> is_put L i r" "\<not> is_delete L i r" using Cons.prems(3) a by simp_all
  have "find_by_id i (orders (snd (handle L e r s))) = Some d"
    using handle_keeps_order[OF Cons.prems(1,2) r(1), of e] r(2) by simp
  moreover have "distinct (map oid (orders (snd (handle L e r s))))"
    using Cons.prems(1) by (rule handle_distinct)
  moreover have "\<forall>(e, r) \<in> set rs. \<not> is_put L i r \<and> \<not> is_delete L i r"
    using Cons.prems(3) by simp
  ultimately show ?case using Cons.IH a by simp
qed

lemma post_orders_created:
  assumes "post_orders L e b s = (Response 201 m, s1)"
  shows "\<exists>d. new_Order L e b = Some d \<and> s1 = s\<lparr>orders := orders s @ [d]\<rparr>
           \<and> new_id e \<notin> set (map oid (orders s)) \<and> write_ok e"
  using assms post_orders_cases[of L e b s] by auto

section \<open>Order placement\<close>

text \<open>
  C3. In a store whose orders have distinct identifiers, an order placed with success (201)
  is stored with status \<^verbatim>\<open>Pending\<close>. After any sequence of requests none of which is a
  \<^verbatim>\<open>PUT /orders/:id\<close> whose path parameter is cast to its identifier, the order is
  removed or still \<^verbatim>\<open>Pending\<close>, and still \<^verbatim>\<open>Pending\<close> when none of them is a
  \<^verbatim>\<open>DELETE /orders/:id\<close> on its identifier either. No request other than such a
  \<^verbatim>\<open>PUT\<close> changes the status of a stored order: after the request the order has the
  status it had, or is gone when the request deleted it.
\<close>

theorem placed_order_stays_pending:
  assumes "distinct (map oid (orders s))"
    and "post_orders L e b s = (Response 201 m, s1)"
    and "\<forall>(e', r) \<in> set rs. \<not> is_put L (new_id e) r"
  shows "status_of (new_id e) s1 = Some ''Pending''
       \<and> status_of (new_id e) (serve L rs s1) \<in> {None, Some ''Pending''}
       \<and> ((\<forall>(e', r) \<in> set rs. \<not> is_delete L (new_id e) r) \<longrightarrow>
            status_of (new_id e) (serve L rs s1) = Some ''Pending'')
       \<and> (status_of i s = Some x \<and> \<not> is_put L i r \<longrightarrow>
            status_of i (snd (handle L e' r s)) =
              (if is_delete L i r \<and> write_ok e' then None else Some x))"
proof -
  obtain d where d: "new_Order L e b = Some d" "s1 = s\<lparr>orders := orders s @ [d]\<rparr>"
    "new_id e \<notin> set (map oid (orders s))"
    using post_orders_created[OF assms(2)] by blast
  have od: "oid d = new_id e" "status d = ''Pending''"
    using d(1) new_Order_Some by blast+
  have found: "find_by_id (new_id e) (orders s1) = Some d"
    using d(2,3) od(1) by (simp add: find_by_id_snoc find_by_id_None[symmetric] del: set_map)
  have dist1: "distinct (map oid (orders s1))"
    using assms(1) d(2,3) od(1) by simp
  have p1: "status_of (new_id e) s1 = Some ''Pending''"
    using found od(2) by (simp add: status_of_def)
  have p2: "status_of (new_id e) (serve L rs s1) \<in> {None, Some ''Pending''}"
    using dist1 _ assms(3) by (rule serve_pending_or_absent) (simp add: p1)
  have p3: "status_of (new_id e) (serve L rs s1) = Some ''Pending''"
    if "\<forall>(e', r) \<in> set rs. \<not> is_delete L (new_id e) r"
  proof -
    have "\<forall>(e', r) \<in> set rs. \<not> is_put L (new_id e) r \<and> \<not> is_delete L (new_id e) r"
      using assms(3) that by auto
    then have "find_by_id (new_id e) (orders (serve L rs s1)) = Some d"
      using dist1 found serve_keeps_order by blast
    then show ?thesis using od(2) by (simp add: status_of_def)
  qed
  have p4: "status_of i (snd (handle L e' r s)) =
              (if is_delete L i r \<and> write_ok e' then None else Some x)"
    if h: "status_of i s = Some x \<and> \<not> is_put L i r"
  proof -
    obtain d' where d': "find_by_id i (orders s) = Some d'" "status d' = x"
      using h by (auto simp: status_of_def)
    show ?thesis
      using handle_keeps_order[OF assms(1) d'(1), of L r e'] h d'(2)
      by (simp add: status_of_def)
  qed
  show ?thesis using p1 p2 p3 p4 by blast
qed

lemmas cast_eval = castObjectId_def is_hex_def hex_lower_def stub_lib_def id1_def id2_def
  id3_def id4_def

theorem placed_order_stays_pending_witness:
  "distinct (map oid (orders db1))
   \<and> post_orders stub_lib env0 empty_order_body db1 =
       (Response 201 (Message ''Order submitted successfully''),
        snd (post_orders stub_lib env0 empty_order_body db1))
   \<and> status_of id2 (snd (post_orders stub_lib env0 empty_order_body db1)) = Some ''Pending''
   \<and> status_of id2
       (serve stub_lib
          [(env0, GET_allorders),
           (env0, PUT_orders ''65A1F0C2B7E4D3A9C8F01B21'' (Given ''Rejected'')),
           (env0, DELETE_orders ''65a1f0c2b7e4d3a9c8f01b21''),
           (env1, POST_orders empty_order_body),
           (env0, PUT_orders ''o9'' (Given ''Delivered''))]
          (snd (post_orders stub_lib env0 empty_order_body db1))) = Some ''Pending''
   \<and> status_of id1 (snd (handle stub_lib env0 (DELETE_orders ''65a1f0c2b7e4d3a9c8f01b22'') db1))
       = Some ''Delivered''"
proof -
  let ?rs = "[(env0, GET_allorders),
           (env0, PUT_orders ''65A1F0C2B7E4D3A9C8F01B21'' (Given ''Rejected'')),
           (env0, DELETE_orders ''65a1f0c2b7e4d3a9c8f01b21''),
           (env1, POST_orders empty_order_body),
           (env0, PUT_orders ''o9'' (Given ''Delivered''))]"
  have n: "new_id env0 = id2" by (simp add: env0_def)
  have h1: "distinct (map oid (orders db1))" by (simp add: db1_def)
  have h2: "post_orders stub_lib env0 empty_order_body db1 =
       (Response 201 (Message ''Order submitted successfully''),
        snd (post_orders stub_lib env0 empty_order_body db1))"
    by (simp add: post_orders_def new_Order_def cast_path_def Order_save_def status_enum_def
        env0_def empty_order_body_def db1_def order1_def id1_def id2_def)
  have h3: "\<forall>(e', r) \<in> set ?rs. \<not> is_put stub_lib (new_id env0) r"
    by (simp add: is_put_def env0_def cast_eval)
  have h4: "\<forall>(e', r) \<in> set ?rs. \<not> is_delete stub_lib (new_id env0) r"
    by (simp add: is_delete_def env0_def cast_eval)
  have h5: "status_of id1 db1 = Some ''Delivered''
        \<and> \<not> is_put stub_lib id1 (DELETE_orders ''65a1f0c2b7e4d3a9c8f01b22'')"
    "\<not> is_delete stub_lib id1 (DELETE_orders ''65a1f0c2b7e4d3a9c8f01b22'')"
    by (simp_all add: status_of_def find_by_id_def db1_def order1_def is_put_def is_delete_def
        cast_eval)
  show ?thesis
    using placed_order_stays_pending[OF h1 h2 h3, of id1 "''Delivered''"
        "DELETE_orders ''65a1f0c2b7e4d3a9c8f01b22''" env0] h1 h2 h4 h5 n
    by simp
qed

text \<open>
  C4, as the specification states it (a request whose purchaser snapshot or line list is
  empty fails with a validation error and creates no order), fails: the handler has no
  validation step. With an empty snapshot and an empty line list the answer is 201 and the
  order is stored.
\<close>

theorem post_orders_accepts_empty:
  "post_orders stub_lib env0 empty_order_body db0 =
     (Response 201 (Message ''Order submitted successfully''),
      \<lparr>foodItems = [],
       orders = [\<lparr>oid = id2, userDetails = \<lparr>ud_name = None, ud_email = None\<rparr>,
                  orderDetails = [], totalAmount = None, paymentMethod = None,
                  status = ''Pending'', createdAt = 5, updatedAt = 5\<rparr>],
       users = []\<rparr>)"
  by (simp add: post_orders_def new_Order_def cast_path_def Order_save_def status_enum_def
      env0_def empty_order_body_def db0_def)

text \<open>
  C4, amended. The handler of \<^verbatim>\<open>POST /orders\<close> has no validation step and answers 201 or
  500 only: every request is either stored as one new \<^verbatim>\<open>Pending\<close> order and answered
  201, or answered 500 \<^verbatim>\<open>Failed to submit order\<close> with the store unchanged. A request
  whose properties are absent or of the types of the schema, an empty or absent snapshot
  or line list included, is stored with the snapshot and lines it gave and answered 201
  when the store accepts the save. Whether a snapshot or a line list of another type is
  stored or refused is the cast of Mongoose, not a check of the handler.
\<close>

theorem post_orders_outcome:
  "((\<exists>d. post_orders L e b s =
            (Response 201 (Message ''Order submitted successfully''), s\<lparr>orders := orders s @ [d]\<rparr>)
          \<and> oid d = new_id e \<and> status d = ''Pending'')
     \<or> post_orders L e b s = (Response 500 (Message ''Failed to submit order''), s))
   \<and> ((\<forall>raw. b_userDetails b \<noteq> Malformed raw) \<and> (\<forall>raw. b_orderDetails b \<noteq> Malformed raw)
        \<and> (\<forall>raw. b_totalAmount b \<noteq> Malformed raw) \<and> (\<forall>raw. b_paymentMethod b \<noteq> Malformed raw)
        \<and> write_ok e \<and> new_id e \<notin> set (map oid (orders s)) \<longrightarrow>
      (\<exists>d. post_orders L e b s =
             (Response 201 (Message ''Order submitted successfully''), s\<lparr>orders := orders s @ [d]\<rparr>)
           \<and> oid d = new_id e \<and> status d = ''Pending''
           \<and> userDetails d = (case b_userDetails b of Given u \<Rightarrow> u
                               | _ \<Rightarrow> \<lparr>ud_name = None, ud_email = None\<rparr>)
           \<and> orderDetails d = (case b_orderDetails b of Given ls \<Rightarrow> ls | _ \<Rightarrow> [])))"
proof (intro conjI impI)
  show "(\<exists>d. post_orders L e b s =
            (Response 201 (Message ''Order submitted successfully''), s\<lparr>orders := orders s @ [d]\<rparr>)
          \<and> oid d = new_id e \<and> status d = ''Pending'')
     \<or> post_orders L e b s = (Response 500 (Message ''Failed to submit order''), s)"
    using post_orders_cases[of L e b s] new_Order_Some[of L e b] by blast
next
  assume a: "(\<forall>raw. b_userDetails b \<noteq> Malformed raw) \<and> (\<forall>raw. b_orderDetails b \<noteq> Malformed raw)
        \<and> (\<forall>raw. b_totalAmount b \<noteq> Malformed raw) \<and> (\<forall>raw. b_paymentMethod b \<noteq> Malformed raw)
        \<and> write_ok e \<and> new_id e \<notin> set (map oid (orders s))"
  let ?d = "\<lparr>oid = new_id e,
      userDetails = (case b_userDetails b of Given u \<Rightarrow> u
                     | _ \<Rightarrow> \<lparr>ud_name = None, ud_email = None\<rparr>),
      orderDetails = (case b_orderDetails b of Given ls \<Rightarrow> ls | _ \<Rightarrow> []),
      totalAmount = (case b_totalAmount b of Given t \<Rightarrow> Some t | _ \<Rightarrow> None),
      paymentMethod = (case b_paymentMethod b of Given p \<Rightarrow> Some p | _ \<Rightarrow> None),
      status = ''Pending'', createdAt = now e, updatedAt = now e\<rparr>"
  have "new_Order L e b = Some ?d"
    using a by (auto simp: new_Order_def cast_path_def split: field.splits)
  then have "post_orders L e b s =
      (Response 201 (Message ''Order submitted successfully''), s\<lparr>orders := orders s @ [?d]\<rparr>)"
    using a by (simp add: post_orders_def Order_save_def status_enum_def)
  then show "\<exists>d. post_orders L e b s =
             (Response 201 (Message ''Order submitted successfully''), s\<lparr>orders := orders s @ [d]\<rparr>)
           \<and> oid d = new_id e \<and> status d = ''Pending''
           \<and> userDetails d = (case b_userDetails b of Given u \<Rightarrow> u
                               | _ \<Rightarrow> \<lparr>ud_name = None, ud_email = None\<rparr>)
           \<and> orderDetails d = (case b_orderDetails b of Given ls \<Rightarrow> ls | _ \<Rightarrow> [])"
    by (intro exI[of _ ?d]) simp
qed

theorem post_orders_outcome_witness:
  "\<exists>d. post_orders stub_lib env0 empty_order_body db1 =
          (Response 201 (Message ''Order submitted successfully''),
           db1\<lparr>orders := orders db1 @ [d]\<rparr>)
        \<and> oid d = id2 \<and> status d = ''Pending''
        \<and> userDetails d = \<lparr>ud_name = None, ud_email = None\<rparr> \<and> orderDetails d = []"
  using post_orders_outcome[of stub_lib env0 empty_order_body db1]
  by (simp add: env0_def empty_order_body_def db1_def order1_def id1_def id2_def)

section \<open>Status update\<close>

text \<open>
  C5. A status update whose new status is not one of the strings \<^verbatim>\<open>Pending\<close>,
  \<^verbatim>\<open>Delivered\<close>, \<^verbatim>\<open>Rejected\<close> is answered 400 \<^verbatim>\<open>Invalid status\<close> and leaves the
  store unchanged.
\<close>

theorem put_order_invalid_status:
  assumes "st \<notin> {Given ''Pending'', Given ''Delivered'', Given ''Rejected''}"
  shows "put_order L e i st s = (Response 400 (Message ''Invalid status''), s)"
  using assms by (cases st) (auto simp: put_order_def includes_status_def status_enum_def)

theorem put_order_invalid_status_witness:
  "put_order stub_lib env0 ''65a1f0c2b7e4d3a9c8f01b21'' (Given ''Bogus'') db1
     = (Response 400 (Message ''Invalid status''), db1)
   \<and> put_order stub_lib env0 ''65a1f0c2b7e4d3a9c8f01b21'' Absent db1
     = (Response 400 (Message ''Invalid status''), db1)
   \<and> put_order stub_lib env0 ''65a1f0c2b7e4d3a9c8f01b21'' (Malformed ''5'') db1
     = (Response 400 (Message ''Invalid status''), db1)"
  using put_order_invalid_status[of "Given ''Bogus''" stub_lib env0 "''65a1f0c2b7e4d3a9c8f01b21''" db1]
    put_order_invalid_status[of Absent stub_lib env0 "''65a1f0c2b7e4d3a9c8f01b21''" db1]
    put_order_invalid_status[of "Malformed ''5''" stub_lib env0 "''65a1f0c2b7e4d3a9c8f01b21''" db1]
  by simp

text \<open>
  C6, as the specification states it (every absent order id fails with \<^verbatim>\<open>NotFound\<close>),
  fails: a path parameter that is no \<^verbatim>\<open>ObjectId\<close> names no order, and the update rejects
  with a cast error, which the handler answers 500.
\<close>

theorem put_order_absent_id_500:
  "castObjectId stub_lib ''o9'' = None
   \<and> put_order stub_lib env0 ''o9'' (Given ''Rejected'') db1
     = (Response 500 (MessageError ''Error updating order''), db1)"
  by (simp add: put_order_def Order_findByIdAndUpdate_def includes_status_def status_enum_def
      castObjectId_def)

text \<open>
  C6, amended. A status update with one of the three status values, on a path parameter
  that is cast to the identifier \<open>i\<close>, when the store answers: if no order has the
  identifier \<open>i\<close> the answer is 404; if an order has it, whatever its status, the answer is
  200 with the order under the new status and with \<^verbatim>\<open>updatedAt\<close> set to the time of the
  request, that order is what the store then holds under \<open>i\<close>, and the other orders, the
  users and the food items are unchanged. A path parameter that cannot be cast to an
  identifier is answered 500 \<^verbatim>\<open>Error updating order\<close>, as is a store that does not
  answer; the store is then unchanged.
\<close>

theorem put_order_sets_status:
  assumes "v \<in> {''Pending'', ''Delivered'', ''Rejected''}"
  shows "(castObjectId L p = None \<or> \<not> write_ok e \<longrightarrow>
            put_order L e p (Given v) s = (Response 500 (MessageError ''Error updating order''), s))
       \<and> (castObjectId L p = Some i \<and> write_ok e \<and> find_by_id i (orders s) = None \<longrightarrow>
            put_order L e p (Given v) s =
              (Response 404 (Message (''Order with ID '' @ p @ '' not found'')), s))
       \<and> (castObjectId L p = Some i \<and> write_ok e \<and> find_by_id i (orders s) = Some d \<longrightarrow>
            (\<exists>s'. put_order L e p (Given v) s =
                     (Response 200 (OrderJson (d\<lparr>status := v, updatedAt := now e\<rparr>)), s')
                 \<and> find_by_id i (orders s') = Some (d\<lparr>status := v, updatedAt := now e\<rparr>)
                 \<and> (\<forall>j. j \<noteq> i \<longrightarrow> find_by_id j (orders s') = find_by_id j (orders s))
                 \<and> map oid (orders s') = map oid (orders s)
                 \<and> users s' = users s \<and> foodItems s' = foodItems s))"
proof -
  have en: "v \<in> set status_enum" "includes_status (Given v)"
    using assms(1) by (auto simp: status_enum_def includes_status_def)
  let ?f = "\<lambda>d. d\<lparr>status := v, updatedAt := now e\<rparr>"
  let ?s' = "s\<lparr>orders := update_first (\<lambda>d. oid d = i) ?f (orders s)\<rparr>"
  have keep: "\<And>d. oid (?f d) = oid d" by simp
  have failed: "put_order L e p (Given v) s =
      (Response 500 (MessageError ''Error updating order''), s)"
    if "castObjectId L p = None \<or> \<not> write_ok e"
    using that en
    by (auto simp: put_order_def Order_findByIdAndUpdate_def split: option.splits)
  have absent: "put_order L e p (Given v) s =
      (Response 404 (Message (''Order with ID '' @ p @ '' not found'')), s)"
    if "castObjectId L p = Some i \<and> write_ok e \<and> find_by_id i (orders s) = None"
    using that en by (simp add: put_order_def Order_findByIdAndUpdate_def)
  have present: "\<exists>s'. put_order L e p (Given v) s = (Response 200 (OrderJson (?f d)), s')
                 \<and> find_by_id i (orders s') = Some (?f d)
                 \<and> (\<forall>j. j \<noteq> i \<longrightarrow> find_by_id j (orders s') = find_by_id j (orders s))
                 \<and> map oid (orders s') = map oid (orders s)
                 \<and> users s' = users s \<and> foodItems s' = foodItems s"
    if f: "castObjectId L p = Some i \<and> write_ok e \<and> find_by_id i (orders s) = Some d"
  proof (intro exI[of _ ?s'] conjI allI impI)
    show "put_order L e p (Given v) s = (Response 200 (OrderJson (?f d)), ?s')"
      using f en by (simp add: put_order_def Order_findByIdAndUpdate_def)
    show "find_by_id i (orders ?s') = Some (?f d)"
      using f find_by_id_update_first_same[of ?f i "orders s", OF keep] by simp
    show "find_by_id j (orders ?s') = find_by_id j (orders s)" if "j \<noteq> i" for j
      using that find_by_id_update_first_other[of j i ?f "orders s", OF _ keep] by simp
    show "map oid (orders ?s') = map oid (orders s)"
      using map_oid_update_first[of ?f "\<lambda>d. oid d = i" "orders s", OF keep] by simp
  qed simp_all
  show ?thesis using failed absent present by blast
qed

theorem put_order_sets_status_witness:
  "put_order stub_lib env0 ''o9'' (Given ''Rejected'') db1 =
     (Response 500 (MessageError ''Error updating order''), db1)
   \<and> put_order stub_lib env0 ''65a1f0c2b7e4d3a9c8f01b24'' (Given ''Rejected'') db1 =
     (Response 404 (Message ''Order with ID 65a1f0c2b7e4d3a9c8f01b24 not found''), db1)
   \<and> (\<exists>s'. put_order stub_lib env0 ''65A1F0C2B7E4D3A9C8F01B21'' (Given ''Pending'') db1 =
              (Response 200 (OrderJson (order1\<lparr>status := ''Pending'', updatedAt := 5\<rparr>)), s')
          \<and> find_by_id id1 (orders s') = Some (order1\<lparr>status := ''Pending'', updatedAt := 5\<rparr>))"
proof -
  have v: "''Rejected'' \<in> {''Pending'', ''Delivered'', ''Rejected''}"
    "''Pending'' \<in> {''Pending'', ''Delivered'', ''Rejected''}" by simp_all
  have w: "write_ok env0" "now env0 = 5" by (simp_all add: env0_def)
  have c: "castObjectId stub_lib ''o9'' = None"
    "castObjectId stub_lib ''65a1f0c2b7e4d3a9c8f01b24'' = Some id4"
    "castObjectId stub_lib ''65A1F0C2B7E4D3A9C8F01B21'' = Some id1"
    by (simp_all add: cast_eval)
  have a: "find_by_id id4 (orders db1) = None"
    and p: "find_by_id id1 (orders db1) = Some order1"
    by (simp_all add: find_by_id_def db1_def order1_def id1_def id4_def)
  show ?thesis
    using put_order_sets_status[OF v(1), of stub_lib "''o9''" env0 db1 id4 order1]
      put_order_sets_status[OF v(1), of stub_lib "''65a1f0c2b7e4d3a9c8f01b24''" env0 db1 id4 order1]
      put_order_sets_status[OF v(2), of stub_lib "''65A1F0C2B7E4D3A9C8F01B21''" env0 db1 id1 order1]
      a p c w
    by simp blast
qed

section \<open>Orders of an identity\<close>

lemma sorted_desc_sort_createdAt:
  "sorted_wrt (\<lambda>a b. createdAt b \<le> createdAt a) (sort_createdAt_desc os)"
proof -
  have "sorted (map (\<lambda>d. - int (createdAt d)) (sort_createdAt_desc os))"
    unfolding sort_createdAt_desc_def by (rule sorted_sort_key)
  then have "sorted_wrt (\<lambda>a b. - int (createdAt a) \<le> - int (createdAt b)) (sort_createdAt_desc os)"
    by (simp add: sorted_map)
  then show ?thesis by (rule sorted_wrt_mono_rel[rotated]) simp
qed

lemma mset_sort_createdAt: "mset (sort_createdAt_desc os) = mset os"
  by (simp add: sort_createdAt_desc_def)

text \<open>
  C7. For a request whose verified claim carries the email \<open>em\<close>, when the store answers:
  if no stored order has \<open>em\<close> as the email of its purchaser snapshot the answer is 404
  \<^verbatim>\<open>No orders found for this user\<close>; otherwise the answer is 200 with exactly the
  orders of that email, each as often as stored, in non-increasing order of creation
  time. The store is unchanged.
\<close>

theorem get_orders_lists:
  assumes "user req = Some c" and "claim_email c = Some em" and "find_ok e"
  shows "(filter (\<lambda>d. ud_email (userDetails d) = Some em) (orders s) = [] \<longrightarrow>
            get_orders e req s = (Response 404 (Message ''No orders found for this user''), s))
       \<and> (filter (\<lambda>d. ud_email (userDetails d) = Some em) (orders s) \<noteq> [] \<longrightarrow>
            (\<exists>os. get_orders e req s = (Response 200 (OrdersJson os), s)
                \<and> mset os = mset (filter (\<lambda>d. ud_email (userDetails d) = Some em) (orders s))
                \<and> sorted_wrt (\<lambda>a b. createdAt b \<le> createdAt a) os))"
proof -
  let ?mine = "filter (\<lambda>d. ud_email (userDetails d) = Some em) (orders s)"
  let ?found = "sort_createdAt_desc ?mine"
  have empty: "?found = [] \<longleftrightarrow> ?mine = []"
    using mset_sort_createdAt[of ?mine] by (metis mset_zero_iff)
  have r: "get_orders e req s =
      (if ?found = [] then (Response 404 (Message ''No orders found for this user''), s)
       else (Response 200 (OrdersJson ?found), s))"
    using assms by (simp add: get_orders_def Let_def)
  show ?thesis
    using r empty mset_sort_createdAt[of ?mine] sorted_desc_sort_createdAt[of ?mine]
    by auto
qed

theorem get_orders_lists_witness:
  "get_orders env0 req_c db3 = (Response 404 (Message ''No orders found for this user''), db3)
   \<and> (\<exists>os. get_orders env0 req_a db3 = (Response 200 (OrdersJson os), db3)
          \<and> mset os = mset [order1, order2]
          \<and> sorted_wrt (\<lambda>a b. createdAt b \<le> createdAt a) os)"
proof -
  have u: "user req_c = Some \<lparr>claim_email = Some ''c@x.com''\<rparr>"
    "user req_a = Some \<lparr>claim_email = Some ''a@x.com''\<rparr>"
    by (simp_all add: req_a_def req_c_def)
  have c: "claim_email \<lparr>claim_email = Some ''c@x.com''\<rparr> = Some ''c@x.com''"
    "claim_email \<lparr>claim_email = Some ''a@x.com''\<rparr> = Some ''a@x.com''" by simp_all
  have f: "find_ok env0" by (simp add: env0_def)
  have none: "filter (\<lambda>d. ud_email (userDetails d) = Some ''c@x.com'') (orders db3) = []"
    by (simp add: db3_def order1_def order2_def order3_def)
  have some: "filter (\<lambda>d. ud_email (userDetails d) = Some ''a@x.com'') (orders db3) = [order1, order2]"
    by (simp add: db3_def order1_def order2_def order3_def)
  show ?thesis
    using get_orders_lists[OF u(1) c(1) f, of db3] get_orders_lists[OF u(2) c(2) f, of db3]
      none some
    by simp
qed

section \<open>Registration and sign-in\<close>

text \<open>
  C8. A registration whose email or whose mobile number is the one of a stored user leaves
  the store unchanged, and is answered 400 \<^verbatim>\<open>Email or mobile number already in use\<close>
  when the store answers the lookup.
\<close>

theorem signup_duplicate:
  assumes "u \<in> set (users s)"
    and "(s_email b = Some em \<and> email u = Some em) \<or> (s_mobile b = Some mb \<and> mobile u = Some mb)"
  shows "snd (post_signup L e b file s) = s
       \<and> (find_ok e \<longrightarrow>
            post_signup L e b file s =
              (Response 400 (Send ''Email or mobile number already in use''), s))"
proof -
  have "\<exists>x\<in>set (users s). email x = s_email b \<or> mobile x = s_mobile b"
    using assms by auto
  then have "find (\<lambda>u. email u = s_email b \<or> mobile u = s_mobile b) (users s) \<noteq> None"
    by (auto simp: find_None_iff)
  then show ?thesis by (auto simp: post_signup_def)
qed

theorem signup_duplicate_witness:
  "post_signup stub_lib env0 signup_a None db1 =
     (Response 400 (Send ''Email or mobile number already in use''), db1)"
proof -
  have m: "user1 \<in> set (users db1)" by (simp add: db1_def)
  have d: "(s_email signup_a = Some ''a@x.com'' \<and> email user1 = Some ''a@x.com'')
         \<or> (s_mobile signup_a = Some ''555'' \<and> mobile user1 = Some ''555'')"
    by (simp add: signup_a_def user1_def)
  have f: "find_ok env0" by (simp add: env0_def)
  show ?thesis using signup_duplicate[OF m d, of stub_lib env0 None] f by simp
qed




text \<open>
  C10. The admin routes compute what the user routes compute, answer and store alike:
  \<^verbatim>\<open>/adminsignup\<close> as \<^verbatim>\<open>/signup\<close> and \<^verbatim>\<open>/adminsignin\<close> as \<^verbatim>\<open>/signin\<close>, on the one
  user collection.
\<close>

theorem admin_routes_same:
  "post_adminsignup L e sb file s = post_signup L e sb file s
   \<and> post_adminsignin L e ib s = post_signin L e ib s
   \<and> handle L e (POST_adminsignup sb file) s = handle L e (POST_signup sb file) s
   \<and> handle L e (POST_adminsignin ib) s = handle L e (POST_signin ib) s"
  by (simp add: post_adminsignup_def post_signup_def post_adminsignin_def post_signin_def)

theorem admin_routes_same_witness:
  "post_adminsignin stub_lib env0 \<lparr>si_identifier = Some ''a@x.com'', si_password = Given ''pw1''\<rparr> db1
     = (Response 200 (AuthJson ''.a@x.com'' ''A'' (Some ''a@x.com'')), db1)
   \<and> post_adminsignup stub_lib env0 signup_a None db1
     = (Response 400 (Send ''Email or mobile number already in use''), db1)"
proof -
  have "post_signin stub_lib env0 \<lparr>si_identifier = Some ''a@x.com'', si_password = Given ''pw1''\<rparr> db1
     = (Response 200 (AuthJson ''.a@x.com'' ''A'' (Some ''a@x.com'')), db1)"
    by (simp add: post_signin_def bcryptjs_compare_def stub_lib_def env0_def db1_def user1_def)
  moreover have "post_signup stub_lib env0 signup_a None db1
     = (Response 400 (Send ''Email or mobile number already in use''), db1)"
    by (simp add: post_signup_def env0_def db1_def user1_def signup_a_def)
  ultimately show ?thesis
    using admin_routes_same[of stub_lib env0 signup_a None db1
        "\<lparr>si_identifier = Some ''a@x.com'', si_password = Given ''pw1''\<rparr>"]
    by simp
qed

end
